theory Spec2Isabelle
  imports Main "HOL-Library.Signed_Division" "HOL-Library.Sublist"
begin

section \<open>The calendar arithmetic of the Date object\<close>

text \<open>
  The holiday generator of \<^verbatim>\<open>usFederalHolidays.ts\<close> builds every date with
  \<^verbatim>\<open>new Date(Date.UTC(year, monthIndex, day))\<close> and reads it back with
  \<^verbatim>\<open>getUTCDay\<close>, \<^verbatim>\<open>getUTCFullYear\<close>, \<^verbatim>\<open>getUTCMonth\<close> and \<^verbatim>\<open>getUTCDate\<close>.
  These are built-ins of the language; they are modelled after the abstract operations
  of ECMA-262 (Day, DaysInYear, DayFromYear, YearFromTime, MonthFromTime, DateFromTime,
  WeekDay, MakeDay, MakeDate, TimeClip, MakeFullYear), on mathematical integers.

  A JavaScript number is an \<open>int option\<close> here: \<open>None\<close> is NaN, \<open>Some k\<close> the integer
  \<open>k\<close>. Only integers occur, since years are integers and every time value is a whole
  number of milliseconds. The rounding of IEEE doubles is outside the model; every quantity
  computed from a year inside the range of the Date object is far below \<open>2 ^ 53\<close>.
\<close>

type_synonym number = "int option"

definition msPerDay :: int where
  "msPerDay = 86400000"

definition Day :: "int \<Rightarrow> int" where
  "Day t = t div msPerDay"

definition DaysInYear :: "int \<Rightarrow> int" where
  "DaysInYear y =
     (if y mod 4 \<noteq> 0 then 365
      else if y mod 100 \<noteq> 0 then 366
      else if y mod 400 \<noteq> 0 then 365
      else 366)"

definition DayFromYear :: "int \<Rightarrow> int" where
  "DayFromYear y =
     365 * (y - 1970) + (y - 1969) div 4 - (y - 1901) div 100 + (y - 1601) div 400"

text \<open>
  ECMA-262 specifies YearFromTime(t) as the largest year \<open>y\<close> with
  \<open>TimeFromYear(y) \<le> t\<close>. The executable form below estimates the year from the mean
  length of a Gregorian year (146097 days in 400 years) and corrects the estimate by at
  most one year; \<open>YearFromDay_bounds\<close> and \<open>YearFromDay_unique\<close> show that it is
  the year of the specification.
\<close>

definition YearFromDay :: "int \<Rightarrow> int" where
  "YearFromDay d =
     (let y = 1970 + (400 * d) div 146097
      in if d < DayFromYear y then y - 1
         else if DayFromYear (y + 1) \<le> d then y + 1
         else y)"

definition YearFromTime :: "int \<Rightarrow> int" where
  "YearFromTime t = YearFromDay (Day t)"

definition InLeapYear :: "int \<Rightarrow> int" where
  "InLeapYear t = (if DaysInYear (YearFromTime t) = 366 then 1 else 0)"

definition DayWithinYear :: "int \<Rightarrow> int" where
  "DayWithinYear t = Day t - DayFromYear (YearFromTime t)"

definition MonthFromTime :: "int \<Rightarrow> int" where
  "MonthFromTime t =
     (let d = DayWithinYear t; leap = InLeapYear t
      in if d < 31 then 0
         else if d < 59 + leap then 1
         else if d < 90 + leap then 2
         else if d < 120 + leap then 3
         else if d < 151 + leap then 4
         else if d < 181 + leap then 5
         else if d < 212 + leap then 6
         else if d < 243 + leap then 7
         else if d < 273 + leap then 8
         else if d < 304 + leap then 9
         else if d < 334 + leap then 10
         else 11)"

definition DateFromTime :: "int \<Rightarrow> int" where
  "DateFromTime t =
     (let d = DayWithinYear t; leap = InLeapYear t; m = MonthFromTime t
      in if m = 0 then d + 1
         else if m = 1 then d - 30
         else if m = 2 then d - 58 - leap
         else if m = 3 then d - 89 - leap
         else if m = 4 then d - 119 - leap
         else if m = 5 then d - 150 - leap
         else if m = 6 then d - 180 - leap
         else if m = 7 then d - 211 - leap
         else if m = 8 then d - 242 - leap
         else if m = 9 then d - 272 - leap
         else if m = 10 then d - 303 - leap
         else d - 333 - leap)"

definition WeekDay :: "int \<Rightarrow> int" where
  "WeekDay t = (Day t + 4) mod 7"

text \<open>
  MakeDay(year, month, date): the month is normalised into the year (\<open>ym\<close>, \<open>mn\<close>), the
  day number of the first of that month is found, and \<open>date - 1\<close> is added, so that a day
  of the month outside the month rolls over into the neighbouring months.
  \<open>DaysBeforeMonth\<close> is the number of days of the year before the first of a month,
  the thresholds of MonthFromTime; \<open>DaysInMonth\<close> is the length of a month, used to
  state results only.
\<close>

definition DaysBeforeMonth :: "int \<Rightarrow> int \<Rightarrow> int" where
  "DaysBeforeMonth y mn =
     (let leap = (if DaysInYear y = 366 then 1 else 0)
      in if mn = 0 then 0
         else if mn = 1 then 31
         else if mn = 2 then 59 + leap
         else if mn = 3 then 90 + leap
         else if mn = 4 then 120 + leap
         else if mn = 5 then 151 + leap
         else if mn = 6 then 181 + leap
         else if mn = 7 then 212 + leap
         else if mn = 8 then 243 + leap
         else if mn = 9 then 273 + leap
         else if mn = 10 then 304 + leap
         else 334 + leap)"


definition MakeDay :: "int \<Rightarrow> int \<Rightarrow> int \<Rightarrow> int" where
  "MakeDay year month date =
     (let ym = year + month div 12; mn = month mod 12
      in DayFromYear ym + DaysBeforeMonth ym mn + date - 1)"

definition MakeDate :: "int \<Rightarrow> int \<Rightarrow> int" where
  "MakeDate day time = day * msPerDay + time"

definition TimeClip :: "int \<Rightarrow> number" where
  "TimeClip time = (if \<bar>time\<bar> > 8640000000000000 then None else Some time)"

definition MakeFullYear :: "int \<Rightarrow> int" where
  "MakeFullYear y = (if 0 \<le> y \<and> y \<le> 99 then 1900 + y else y)"

text \<open>\<^verbatim>\<open>Date.UTC(year, month, date)\<close>: the time value, or NaN outside the range.\<close>

definition Date_UTC :: "int \<Rightarrow> int \<Rightarrow> int \<Rightarrow> number" where
  "Date_UTC year month date = TimeClip (MakeDate (MakeDay (MakeFullYear year) month date) 0)"

text \<open>
  A Date object holds one time value; NaN is the invalid date. \<^verbatim>\<open>new Date(value)\<close>
  clips the value again.
\<close>

datatype Date = DateValue (getTime: number)

definition new_Date :: "number \<Rightarrow> Date" where
  "new_Date v = DateValue (case v of None \<Rightarrow> None | Some t \<Rightarrow> TimeClip t)"

definition getUTCDay :: "Date \<Rightarrow> number" where
  "getUTCDay d = map_option WeekDay (getTime d)"

definition getUTCFullYear :: "Date \<Rightarrow> number" where
  "getUTCFullYear d = map_option YearFromTime (getTime d)"

definition getUTCMonth :: "Date \<Rightarrow> number" where
  "getUTCMonth d = map_option MonthFromTime (getTime d)"

definition getUTCDate :: "Date \<Rightarrow> number" where
  "getUTCDate d = map_option DateFromTime (getTime d)"

text \<open>
  The one read of local time: \<^verbatim>\<open>now.getFullYear()\<close>. The environment supplies the
  clock of \<^verbatim>\<open>new Date()\<close> and the offset of the local time zone at an instant.
\<close>

record Env =
  clock :: int
  LocalTZA :: "int \<Rightarrow> int"

definition getFullYear :: "Env \<Rightarrow> Date \<Rightarrow> number" where
  "getFullYear env d = map_option (\<lambda>t. YearFromTime (t + LocalTZA env t)) (getTime d)"

section \<open>Date rule evaluators\<close>

text \<open>The constant table \<^verbatim>\<open>WEEKDAY\<close>.\<close>

definition Sunday :: int where "Sunday = 0"
definition Monday :: int where "Monday = 1"
definition Tuesday :: int where "Tuesday = 2"
definition Wednesday :: int where "Wednesday = 3"
definition Thursday :: int where "Thursday = 4"
definition Friday :: int where "Friday = 5"
definition Saturday :: int where "Saturday = 6"

text \<open>
  The remainder operator \<^verbatim>\<open>%\<close> of the language truncates (the sign follows the
  dividend): it is \<open>smod\<close>. \<^verbatim>\<open>Math.floor(x / n)\<close> for a positive \<open>n\<close> is \<open>div\<close>.
  When the first of the month is the invalid date its weekday is NaN, so are \<open>delta\<close> and
  \<open>day\<close>, and \<^verbatim>\<open>Date.UTC\<close> of a NaN component is NaN.
\<close>

definition nthWeekdayOfMonth :: "int \<Rightarrow> int \<Rightarrow> int \<Rightarrow> int \<Rightarrow> Date" where
  "nthWeekdayOfMonth year monthIndex weekday n =
     (let first = new_Date (Date_UTC year monthIndex 1)
      in case getUTCDay first of
           None \<Rightarrow> new_Date None
         | Some firstWeekday \<Rightarrow>
             (let delta = (weekday - firstWeekday + 7) smod 7;
                  day = 1 + delta + (n - 1) * 7
              in new_Date (Date_UTC year monthIndex day)))"

definition easterSundayUtc :: "int \<Rightarrow> Date" where
  "easterSundayUtc year =
     (let a = year smod 19;
          b = year div 100;
          c = year smod 100;
          d = b div 4;
          e = b smod 4;
          f = (b + 8) div 25;
          g = (b - f + 1) div 3;
          h = (19 * a + b - d - g + 15) smod 30;
          i = c div 4;
          k = c smod 4;
          l = (32 + 2 * e + 2 * i - h - k) smod 7;
          m = (a + 11 * h + 22 * l) div 451;
          month = (h + l - 7 * m + 114) div 31;
          day = ((h + l - 7 * m + 114) smod 31) + 1
      in new_Date (Date_UTC year (month - 1) day))"

definition lastWeekdayOfMonth :: "int \<Rightarrow> int \<Rightarrow> int \<Rightarrow> Date" where
  "lastWeekdayOfMonth year monthIndex weekday =
     (let last = new_Date (Date_UTC year (monthIndex + 1) 0)
      in case (getUTCDay last, getUTCDate last) of
           (Some lastWeekday, Some lastDate) \<Rightarrow>
             (let delta = (lastWeekday - weekday + 7) smod 7;
                  day = lastDate - delta
              in new_Date (Date_UTC year monthIndex day))
         | _ \<Rightarrow> new_Date None)"

definition addDaysUtc :: "Date \<Rightarrow> int \<Rightarrow> Date" where
  "addDaysUtc utcDate deltaDays =
     new_Date (map_option (\<lambda>t. t + deltaDays * 24 * 60 * 60 * 1000) (getTime utcDate))"

section \<open>Strings: date keys, slugs and emoji\<close>

text \<open>
  Strings are lists of 8-bit characters. \<^verbatim>\<open>String(n)\<close> of an integer is its decimal
  numeral with a leading minus sign for a negative one, and \<^verbatim>\<open>String(NaN)\<close> is
  \<^verbatim>\<open>NaN\<close>.
\<close>

definition digit_char :: "nat \<Rightarrow> char" where
  "digit_char n = ''0123456789'' ! (n mod 10)"

fun digits_of :: "nat \<Rightarrow> string" where
  "digits_of n = (if n < 10 then [digit_char n] else digits_of (n div 10) @ [digit_char n])"

definition String_of_int :: "int \<Rightarrow> string" where
  "String_of_int k = (if k < 0 then CHR ''-'' # digits_of (nat (- k)) else digits_of (nat k))"

definition String_of_number :: "number \<Rightarrow> string" where
  "String_of_number v = (case v of None \<Rightarrow> ''NaN'' | Some k \<Rightarrow> String_of_int k)"

definition padStart :: "string \<Rightarrow> nat \<Rightarrow> char \<Rightarrow> string" where
  "padStart s n c = replicate (n - length s) c @ s"

definition dateKey :: "Date \<Rightarrow> string" where
  "dateKey utcDate =
     (let y = getUTCFullYear utcDate;
          m = padStart (String_of_number (map_option (\<lambda>k. k + 1) (getUTCMonth utcDate))) 2 CHR ''0'';
          d = padStart (String_of_number (getUTCDate utcDate)) 2 CHR ''0''
      in String_of_number y @ ''-'' @ m @ ''-'' @ d)"

text \<open>
  \<^verbatim>\<open>toLowerCase\<close> on the letters A to Z; the titles and category names of this
  module are ASCII.
\<close>

definition lower_char :: "char \<Rightarrow> char" where
  "lower_char c =
     (let k = (of_char c :: nat) in if 65 \<le> k \<and> k \<le> 90 then char_of (k + 32) else c)"

definition toLowerCase :: "string \<Rightarrow> string" where
  "toLowerCase s = map lower_char s"

text \<open>\<^verbatim>\<open>t.includes(s)\<close>: \<open>s\<close> occurs in \<open>t\<close> as a contiguous substring.\<close>

fun str_includes :: "string \<Rightarrow> string \<Rightarrow> bool" where
  "str_includes [] s = (s = [])"
| "str_includes (c # cs) s = (prefix s (c # cs) \<or> str_includes cs s)"

text \<open>
  \<^verbatim>\<open>value.toLowerCase().replace(/[^a-z0-9]+/g, '_')\<close>: every maximal run of characters
  other than lower-case letters and digits becomes one underscore.
\<close>

definition slug_char :: "char \<Rightarrow> bool" where
  "slug_char c =
     (let k = (of_char c :: nat) in (97 \<le> k \<and> k \<le> 122) \<or> (48 \<le> k \<and> k \<le> 57))"

function replace_runs :: "string \<Rightarrow> string" where
  "replace_runs [] = []"
| "replace_runs (c # cs) =
     (if slug_char c then c # replace_runs cs
      else CHR ''_'' # replace_runs (dropWhile (\<lambda>x. \<not> slug_char x) cs))"
  by pat_completeness auto
termination
  by (relation "measure length") (auto simp: le_imp_less_Suc length_dropWhile_le)

definition slugifyTitle :: "string \<Rightarrow> string" where
  "slugifyTitle v = replace_runs (toLowerCase v)"

text \<open>
  The emoji literals of the source are kept as the bytes of the source file (UTF-8), one
  constant for each \<^verbatim>\<open>return\<close> of \<^verbatim>\<open>emojiForHolidayTitle\<close>.
\<close>

definition emoji_new_years :: string where
  "emoji_new_years = [CHR 0xC4, CHR 0x9F, CHR 0xC5, CHR 0xB8, CHR 0xC5, CHR 0xA0]"

definition emoji_mlk :: string where
  "emoji_mlk = [CHR 0xC3, CHR 0xA2, CHR 0xC5, CHR 0x93, CHR 0xC5, CHR 0xA0]"

definition emoji_presidents :: string where
  "emoji_presidents = [CHR 0xC4, CHR 0x9F, CHR 0xC5, CHR 0xB8, CHR 0xE2, CHR 0x80, CHR 0xA1, CHR 0xC2, CHR 0xBA, CHR 0xC4, CHR 0x9F, CHR 0xC5, CHR 0xB8, CHR 0xE2, CHR 0x80, CHR 0xA1, CHR 0xC2, CHR 0xB8]"

definition emoji_memorial :: string where
  "emoji_memorial = [CHR 0xC4, CHR 0x9F, CHR 0xC5, CHR 0xB8, CHR 0xE2, CHR 0x80, CHR 0xA2, CHR 0xC2, CHR 0xAF, CHR 0xC3, CHR 0xAF, CHR 0xC2, CHR 0xB8]"

definition emoji_juneteenth :: string where
  "emoji_juneteenth = [CHR 0xC3, CHR 0xA2, CHR 0xC5, CHR 0x93, CHR 0xC5, CHR 0xA0]"

definition emoji_independence :: string where
  "emoji_independence = [CHR 0xC4, CHR 0x9F, CHR 0xC5, CHR 0xB8, CHR 0xE2, CHR 0x80, CHR 0xA0]"

definition emoji_labor :: string where
  "emoji_labor = [CHR 0xC4, CHR 0x9F, CHR 0xC5, CHR 0xB8, CHR 0xE2, CHR 0x80, CHR 0xBA, CHR 0xC2, CHR 0xA0, CHR 0xC3, CHR 0xAF, CHR 0xC2, CHR 0xB8]"

definition emoji_columbus :: string where
  "emoji_columbus = [CHR 0xC4, CHR 0x9F, CHR 0xC5, CHR 0xB8, CHR 0xC2, CHR 0xA7, CHR 0xC2, CHR 0xAD]"

definition emoji_veterans :: string where
  "emoji_veterans = [CHR 0xC4, CHR 0x9F, CHR 0xC5, CHR 0xB8, CHR 0xE2, CHR 0x80, CHR 0x93, CHR 0xC3, CHR 0xAF, CHR 0xC2, CHR 0xB8]"

definition emoji_thanksgiving :: string where
  "emoji_thanksgiving = [CHR 0xC4, CHR 0x9F, CHR 0xC5, CHR 0xB8, CHR 0xC2, CHR 0xA6, CHR 0xC6, CHR 0x92]"

definition emoji_christmas :: string where
  "emoji_christmas = [CHR 0xC4, CHR 0x9F, CHR 0xC5, CHR 0xB8, CHR 0xE2, CHR 0x80, CHR 0x9E]"

definition emoji_valentine :: string where
  "emoji_valentine = [CHR 0xC3, CHR 0xA2, CHR 0xC2, CHR 0xA4, CHR 0xC3, CHR 0xAF, CHR 0xC2, CHR 0xB8]"

definition emoji_mothers :: string where
  "emoji_mothers = [CHR 0xC4, CHR 0x9F, CHR 0xC5, CHR 0xB8, CHR 0xE2, CHR 0x80, CHR 0x99, CHR 0xE2, CHR 0x80, CHR 0x93]"

definition emoji_st_patrick :: string where
  "emoji_st_patrick = [CHR 0xC4, CHR 0x9F, CHR 0xC5, CHR 0xB8, CHR 0xE2, CHR 0x82, CHR 0xAC]"

definition emoji_halloween :: string where
  "emoji_halloween = [CHR 0xC4, CHR 0x9F, CHR 0xC5, CHR 0xB8, CHR 0xC6, CHR 0x92]"

definition emoji_easter :: string where
  "emoji_easter = [CHR 0xC4, CHR 0x9F, CHR 0xC5, CHR 0xB8, CHR 0xC2, CHR 0xB0]"

definition emoji_fathers :: string where
  "emoji_fathers = [CHR 0xC4, CHR 0x9F, CHR 0xC5, CHR 0xB8, CHR 0xC2, CHR 0xA7, CHR 0xE2, CHR 0x80, CHR 0x9D]"

definition emoji_new_years_eve :: string where
  "emoji_new_years_eve = [CHR 0xC4, CHR 0x9F, CHR 0xC5, CHR 0xB8, CHR 0xC2, CHR 0xA5, CHR 0xE2, CHR 0x80, CHR 0x9A]"

definition emoji_christmas_eve :: string where
  "emoji_christmas_eve = [CHR 0xC4, CHR 0x9F, CHR 0xC5, CHR 0xB8, CHR 0xE2, CHR 0x80, CHR 0xA2, CHR 0xC2, CHR 0xAF, CHR 0xC3, CHR 0xAF, CHR 0xC2, CHR 0xB8]"

definition emoji_black_friday :: string where
  "emoji_black_friday = [CHR 0xC4, CHR 0x9F, CHR 0xC5, CHR 0xB8, CHR 0xE2, CHR 0x80, CHR 0xBA, CHR 0xC3, CHR 0xAF, CHR 0xC2, CHR 0xB8]"

definition emoji_cyber_monday :: string where
  "emoji_cyber_monday = [CHR 0xC4, CHR 0x9F, CHR 0xC5, CHR 0xB8, CHR 0xE2, CHR 0x80, CHR 0x93, CHR 0xC2, CHR 0xA5, CHR 0xC3, CHR 0xAF, CHR 0xC2, CHR 0xB8]"

definition emoji_earth_day :: string where
  "emoji_earth_day = [CHR 0xC4, CHR 0x9F, CHR 0xC5, CHR 0xB8, CHR 0xC5, CHR 0x92]"

definition emoji_arbor_day :: string where
  "emoji_arbor_day = [CHR 0xC4, CHR 0x9F, CHR 0xC5, CHR 0xB8, CHR 0xC5, CHR 0x92, CHR 0xC2, CHR 0xB3]"

definition emoji_cinco_de_mayo :: string where
  "emoji_cinco_de_mayo = [CHR 0xC4, CHR 0x9F, CHR 0xC5, CHR 0xB8, CHR 0xE2, CHR 0x80, CHR 0xA1, CHR 0xC2, CHR 0xB2, CHR 0xC4, CHR 0x9F, CHR 0xC5, CHR 0xB8, CHR 0xE2, CHR 0x80, CHR 0xA1, CHR 0xC2, CHR 0xBD]"

definition emoji_april_fool :: string where
  "emoji_april_fool = [CHR 0xC4, CHR 0x9F, CHR 0xC5, CHR 0xB8, CHR 0xC2, CHR 0xA4, CHR 0xC2, CHR 0xA1]"

definition emoji_groundhog :: string where
  "emoji_groundhog = [CHR 0xC4, CHR 0x9F, CHR 0xC5, CHR 0xB8, CHR 0xC2, CHR 0xA6, CHR 0xC2, CHR 0xAB]"

definition emoji_super_bowl :: string where
  "emoji_super_bowl = [CHR 0xC4, CHR 0x9F, CHR 0xC5, CHR 0xB8, CHR 0xCB, CHR 0x86]"

definition emoji_mardi_gras :: string where
  "emoji_mardi_gras = [CHR 0xC4, CHR 0x9F, CHR 0xC5, CHR 0xB8, CHR 0xC2, CHR 0xAD]"

definition emoji_ash_wednesday :: string where
  "emoji_ash_wednesday = [CHR 0xC3, CHR 0xA2, CHR 0xE2, CHR 0x80, CHR 0xBA, CHR 0xC2, CHR 0xAA]"

definition emoji_good_friday :: string where
  "emoji_good_friday = [CHR 0xC3, CHR 0xA2, CHR 0xC5, CHR 0x93, CHR 0xC3, CHR 0xAF, CHR 0xC2, CHR 0xB8]"

definition emoji_palm_sunday :: string where
  "emoji_palm_sunday = [CHR 0xC4, CHR 0x9F, CHR 0xC5, CHR 0xB8, CHR 0xC5, CHR 0x92, CHR 0xC2, CHR 0xBF]"

definition emoji_election_day :: string where
  "emoji_election_day = [CHR 0xC4, CHR 0x9F, CHR 0xC5, CHR 0xB8, CHR 0xE2, CHR 0x80, CHR 0x94, CHR 0xC2, CHR 0xB3, CHR 0xC3, CHR 0xAF, CHR 0xC2, CHR 0xB8]"

definition emoji_tax_day :: string where
  "emoji_tax_day = [CHR 0xC4, CHR 0x9F, CHR 0xC5, CHR 0xB8, CHR 0xC2, CHR 0xA7, CHR 0xC2, CHR 0xBE]"

definition emoji_flag_day :: string where
  "emoji_flag_day = [CHR 0xC4, CHR 0x9F, CHR 0xC5, CHR 0xB8, CHR 0xC2, CHR 0xB3, CHR 0xC3, CHR 0xAF, CHR 0xC2, CHR 0xB8]"

definition emoji_patriot_day :: string where
  "emoji_patriot_day = [CHR 0xC4, CHR 0x9F, CHR 0xC5, CHR 0xB8, CHR 0xE2, CHR 0x80, CHR 0xA2, CHR 0xC5, CHR 0xA0, CHR 0xC3, CHR 0xAF, CHR 0xC2, CHR 0xB8]"

definition emoji_constitution_day :: string where
  "emoji_constitution_day = [CHR 0xC4, CHR 0x9F, CHR 0xC5, CHR 0xB8, CHR 0xE2, CHR 0x80, CHR 0x9C, CHR 0xC5, CHR 0x93]"

definition emoji_daylight_saving :: string where
  "emoji_daylight_saving = [CHR 0xC3, CHR 0xA2, CHR 0xC2, CHR 0xB0]"

definition emoji_calendar :: string where
  "emoji_calendar = [CHR 0xC4, CHR 0x9F, CHR 0xC5, CHR 0xB8, CHR 0xE2, CHR 0x80, CHR 0x9C, CHR 0xE2, CHR 0x80, CHR 0xA6]"

definition emojiForHolidayTitle :: "string \<Rightarrow> string" where
  "emojiForHolidayTitle baseTitle =
     (let t = toLowerCase baseTitle in
      if str_includes t ''new year's'' then emoji_new_years
      else if str_includes t ''martin luther king'' then emoji_mlk
      else if str_includes t ''washington's birthday'' \<or> str_includes t ''president'' then emoji_presidents
      else if str_includes t ''memorial day'' then emoji_memorial
      else if str_includes t ''juneteenth'' then emoji_juneteenth
      else if str_includes t ''independence day'' then emoji_independence
      else if str_includes t ''labor day'' then emoji_labor
      else if str_includes t ''columbus day'' then emoji_columbus
      else if str_includes t ''veterans day'' then emoji_veterans
      else if str_includes t ''thanksgiving'' then emoji_thanksgiving
      else if str_includes t ''christmas'' then emoji_christmas
      else if str_includes t ''valentine'' then emoji_valentine
      else if str_includes t ''mother's day'' \<or> str_includes t ''mothers day'' then emoji_mothers
      else if str_includes t ''st. patrick'' \<or> str_includes t ''st patrick'' then emoji_st_patrick
      else if str_includes t ''halloween'' then emoji_halloween
      else if str_includes t ''easter'' then emoji_easter
      else if str_includes t ''father's day'' \<or> str_includes t ''fathers day'' then emoji_fathers
      else if str_includes t ''new year's eve'' then emoji_new_years_eve
      else if str_includes t ''christmas eve'' then emoji_christmas_eve
      else if str_includes t ''black friday'' then emoji_black_friday
      else if str_includes t ''cyber monday'' then emoji_cyber_monday
      else if str_includes t ''earth day'' then emoji_earth_day
      else if str_includes t ''arbor day'' then emoji_arbor_day
      else if str_includes t ''cinco de mayo'' then emoji_cinco_de_mayo
      else if str_includes t ''april fool'' then emoji_april_fool
      else if str_includes t ''groundhog'' then emoji_groundhog
      else if str_includes t ''super bowl'' then emoji_super_bowl
      else if str_includes t ''mardi gras'' then emoji_mardi_gras
      else if str_includes t ''ash wednesday'' then emoji_ash_wednesday
      else if str_includes t ''good friday'' then emoji_good_friday
      else if str_includes t ''palm sunday'' then emoji_palm_sunday
      else if str_includes t ''election day'' then emoji_election_day
      else if str_includes t ''tax day'' then emoji_tax_day
      else if str_includes t ''flag day'' then emoji_flag_day
      else if str_includes t ''patriot day'' then emoji_patriot_day
      else if str_includes t ''constitution day'' then emoji_constitution_day
      else if str_includes t ''daylight saving'' \<or> str_includes t ''dst'' then emoji_daylight_saving
      else emoji_calendar)"

section \<open>Generated events\<close>

text \<open>
  The fields of \<^verbatim>\<open>CalendarEvent\<close> that \<^verbatim>\<open>makeGeneratedEvent\<close> sets; the selectors carry
  the prefix \<open>ev_\<close>. The category parameter has the type \<^verbatim>\<open>'Holiday' | 'Observance'\<close>.
\<close>

datatype Category = Holiday | Observance

definition category_name :: "Category \<Rightarrow> string" where
  "category_name c = (case c of Holiday \<Rightarrow> ''Holiday'' | Observance \<Rightarrow> ''Observance'')"

record CalendarEvent =
  ev_id :: string
  ev_title :: string
  ev_start :: string
  ev_allDay :: bool
  ev_category :: Category
  ev_source :: string

definition makeGeneratedEvent :: "string \<Rightarrow> Date \<Rightarrow> Category \<Rightarrow> CalendarEvent" where
  "makeGeneratedEvent baseTitle utcDate category =
     (let startIso = dateKey utcDate;
          emoji = emojiForHolidayTitle baseTitle;
          title = (if emoji \<noteq> [] then emoji @ '' '' @ baseTitle else baseTitle)
      in \<lparr> ev_id = ''holiday_'' @ dateKey utcDate @ ''_'' @ slugifyTitle baseTitle @ ''_''
                  @ toLowerCase (category_name category),
           ev_title = title,
           ev_start = startIso,
           ev_allDay = True,
           ev_category = category,
           ev_source = ''holiday'' \<rparr>)"

section \<open>The generator\<close>

text \<open>The two candidate tables built in the body of the year loop.\<close>

definition holidayCandidates :: "int \<Rightarrow> (string \<times> Date) list" where
  "holidayCandidates year =
     (let newYears = new_Date (Date_UTC year 0 1);
          juneteenth = new_Date (Date_UTC year 5 19);
          independence = new_Date (Date_UTC year 6 4);
          veterans = new_Date (Date_UTC year 10 11);
          christmas = new_Date (Date_UTC year 11 25);
          mlk = nthWeekdayOfMonth year 0 Monday 3;
          presidents = nthWeekdayOfMonth year 1 Monday 3;
          memorial = lastWeekdayOfMonth year 4 Monday;
          labor = nthWeekdayOfMonth year 8 Monday 1;
          columbus = nthWeekdayOfMonth year 9 Monday 2;
          thanksgiving = nthWeekdayOfMonth year 10 Thursday 4;
          valentines = new_Date (Date_UTC year 1 14);
          stPatricks = new_Date (Date_UTC year 2 17);
          halloween = new_Date (Date_UTC year 9 31);
          mothersDay = nthWeekdayOfMonth year 4 Sunday 2;
          easter = easterSundayUtc year
      in [(''New Year's Day'', newYears),
          (''Martin Luther King Jr. Day'', mlk),
          (''Washington's Birthday'', presidents),
          (''Memorial Day'', memorial),
          (''Juneteenth National Independence Day'', juneteenth),
          (''Independence Day'', independence),
          (''Labor Day'', labor),
          (''Columbus Day'', columbus),
          (''Veterans Day'', veterans),
          (''Thanksgiving Day'', thanksgiving),
          (''Christmas Day'', christmas),
          (''Valentine's Day'', valentines),
          (''St. Patrick's Day'', stPatricks),
          (''Halloween'', halloween),
          (''Mother's Day'', mothersDay),
          (''Easter'', easter)])"

definition observanceCandidates :: "int \<Rightarrow> (string \<times> Date) list" where
  "observanceCandidates year =
     (let thanksgiving = nthWeekdayOfMonth year 10 Thursday 4;
          easter = easterSundayUtc year;
          newYearsEve = new_Date (Date_UTC year 11 31);
          christmasEve = new_Date (Date_UTC year 11 24);
          groundhogDay = new_Date (Date_UTC year 1 2);
          aprilFools = new_Date (Date_UTC year 3 1);
          earthDay = new_Date (Date_UTC year 3 22);
          cincoDeMayo = new_Date (Date_UTC year 4 5);
          flagDay = new_Date (Date_UTC year 5 14);
          fathersDay = nthWeekdayOfMonth year 5 Sunday 3;
          patriotDay = new_Date (Date_UTC year 8 11);
          constitutionDay = new_Date (Date_UTC year 8 17);
          arborDay = nthWeekdayOfMonth year 3 Friday 4;
          dstStart = nthWeekdayOfMonth year 2 Sunday 2;
          dstEnd = nthWeekdayOfMonth year 10 Sunday 1;
          firstMondayNov = nthWeekdayOfMonth year 10 Monday 1;
          electionDay = addDaysUtc firstMondayNov 1;
          blackFriday = addDaysUtc thanksgiving 1;
          cyberMonday = addDaysUtc thanksgiving 4;
          palmSunday = addDaysUtc easter (- 7);
          goodFriday = addDaysUtc easter (- 2);
          ashWednesday = addDaysUtc easter (- 46);
          mardiGras = addDaysUtc easter (- 47);
          superBowlSunday = nthWeekdayOfMonth year 1 Sunday 2;
          taxDay = new_Date (Date_UTC year 3 15)
      in [(''New Year's Eve'', newYearsEve),
          (''Christmas Eve'', christmasEve),
          (''Groundhog Day'', groundhogDay),
          (''April Fools' Day'', aprilFools),
          (''Earth Day'', earthDay),
          (''Arbor Day'', arborDay),
          (''Cinco de Mayo'', cincoDeMayo),
          (''Father's Day'', fathersDay),
          (''Flag Day'', flagDay),
          (''Patriot Day'', patriotDay),
          (''Constitution Day'', constitutionDay),
          (''Daylight Saving Time Begins'', dstStart),
          (''Daylight Saving Time Ends'', dstEnd),
          (''Election Day'', electionDay),
          (''Black Friday'', blackFriday),
          (''Cyber Monday'', cyberMonday),
          (''Palm Sunday'', palmSunday),
          (''Good Friday'', goodFriday),
          (''Ash Wednesday'', ashWednesday),
          (''Mardi Gras'', mardiGras),
          (''Super Bowl Sunday'', superBowlSunday),
          (''Tax Day'', taxDay)])"

text \<open>
  The comparisons \<^verbatim>\<open>y < startYear\<close> and \<^verbatim>\<open>y > endYear\<close> on a number that may be NaN:
  a comparison with NaN is false.
\<close>

definition num_less :: "number \<Rightarrow> int \<Rightarrow> bool" where
  "num_less y k = (case y of None \<Rightarrow> False | Some v \<Rightarrow> v < k)"

definition num_greater :: "number \<Rightarrow> int \<Rightarrow> bool" where
  "num_greater y k = (case y of None \<Rightarrow> False | Some v \<Rightarrow> v > k)"

text \<open>
  One \<^verbatim>\<open>for (const [title, d] of candidates)\<close> loop: a candidate whose year is outside
  the range is skipped (\<^verbatim>\<open>continue\<close>), any other is pushed onto \<open>events\<close>.
\<close>

fun push_candidates ::
  "int \<Rightarrow> int \<Rightarrow> Category \<Rightarrow> (string \<times> Date) list \<Rightarrow> CalendarEvent list \<Rightarrow> CalendarEvent list"
where
  "push_candidates startYear endYear category [] events = events"
| "push_candidates startYear endYear category ((title, d) # rest) events =
     (let y = getUTCFullYear d
      in if num_less y startYear \<or> num_greater y endYear
         then push_candidates startYear endYear category rest events
         else push_candidates startYear endYear category rest
                (events @ [makeGeneratedEvent title d category]))"

text \<open>The loop \<^verbatim>\<open>for (let year = startYear; year <= endYear; year += 1)\<close>.\<close>

function year_loop :: "int \<Rightarrow> int \<Rightarrow> int \<Rightarrow> CalendarEvent list \<Rightarrow> CalendarEvent list" where
  "year_loop year startYear endYear events =
     (if year \<le> endYear
      then year_loop (year + 1) startYear endYear
             (push_candidates startYear endYear Observance (observanceCandidates year)
                (push_candidates startYear endYear Holiday (holidayCandidates year) events))
      else events)"
  by pat_completeness auto
termination
  by (relation "measure (\<lambda>(year, startYear, endYear, events). nat (endYear + 1 - year))") auto

text \<open>
  The final \<^verbatim>\<open>events.filter\<close> with the set \<open>seen\<close> of ids: an event is kept when its
  id has not been seen, and its id is then added.
\<close>

fun dedupe :: "string set \<Rightarrow> CalendarEvent list \<Rightarrow> CalendarEvent list" where
  "dedupe seen [] = []"
| "dedupe seen (e # es) =
     (if ev_id e \<in> seen then dedupe seen es
      else e # dedupe (insert (ev_id e) seen) es)"

text \<open>
  The optional argument and its optional fields. A missing \<open>now\<close> is read from the clock;
  a missing year bound is derived from the local year of \<open>now\<close>, which is NaN for an
  invalid date. With a NaN bound the loop condition is false at once.
\<close>

record Options =
  now_opt :: "Date option"
  startYear_opt :: "int option"
  endYear_opt :: "int option"

definition makeUsFederalHolidays :: "Env \<Rightarrow> Options option \<Rightarrow> CalendarEvent list" where
  "makeUsFederalHolidays env options =
     (let now = (case Option.bind options now_opt of
                   Some d \<Rightarrow> d
                 | None \<Rightarrow> new_Date (Some (clock env)));
          currentYear = getFullYear env now;
          startYear = (case Option.bind options startYear_opt of
                         Some s \<Rightarrow> Some s
                       | None \<Rightarrow> map_option (\<lambda>y. y - 1) currentYear);
          endYear = (case Option.bind options endYear_opt of
                       Some e \<Rightarrow> Some e
                     | None \<Rightarrow> map_option (\<lambda>y. y + 2) currentYear);
          events = (case (startYear, endYear) of
                      (Some s, Some e) \<Rightarrow> year_loop s s e []
                    | _ \<Rightarrow> [])
      in dedupe {} events)"

text \<open>\<^verbatim>\<open>generate({startYear, endYear})\<close> of the specification: both bounds explicit.\<close>

definition explicit_range :: "Date option \<Rightarrow> int \<Rightarrow> int \<Rightarrow> Options option" where
  "explicit_range now startYear endYear =
     Some \<lparr> now_opt = now, startYear_opt = Some startYear, endYear_opt = Some endYear \<rparr>"

text \<open>
  The loops in closed form, for the proofs: the candidates that pass the year filter, the
  events they become, and the events of one iteration of the year loop.
\<close>

definition in_range :: "int \<Rightarrow> int \<Rightarrow> Date \<Rightarrow> bool" where
  "in_range startYear endYear d =
     (\<not> (num_less (getUTCFullYear d) startYear \<or> num_greater (getUTCFullYear d) endYear))"

definition kept :: "int \<Rightarrow> int \<Rightarrow> Category \<Rightarrow> (string \<times> Date) list \<Rightarrow> CalendarEvent list" where
  "kept startYear endYear category cands =
     map (\<lambda>(title, d). makeGeneratedEvent title d category)
       (filter (\<lambda>(title, d). in_range startYear endYear d) cands)"

definition year_events :: "int \<Rightarrow> int \<Rightarrow> int \<Rightarrow> CalendarEvent list" where
  "year_events startYear endYear year =
     kept startYear endYear Holiday (holidayCandidates year)
     @ kept startYear endYear Observance (observanceCandidates year)"

section \<open>The specification's reading of the emoji lookup\<close>

text \<open>
  Following the specification: a fixed ordered list of (substring, emoji) pairs, searched
  in declared order against the lower-cased title; the first match wins and a title that
  matches no pair gets the generic calendar emoji. A condition \<^verbatim>\<open>a || b\<close> of the source
  contributes two consecutive pairs with the same emoji.
\<close>

definition emoji_pairs :: "(string \<times> string) list" where
  "emoji_pairs =
     [(''new year's'', emoji_new_years),
      (''martin luther king'', emoji_mlk),
      (''washington's birthday'', emoji_presidents),
      (''president'', emoji_presidents),
      (''memorial day'', emoji_memorial),
      (''juneteenth'', emoji_juneteenth),
      (''independence day'', emoji_independence),
      (''labor day'', emoji_labor),
      (''columbus day'', emoji_columbus),
      (''veterans day'', emoji_veterans),
      (''thanksgiving'', emoji_thanksgiving),
      (''christmas'', emoji_christmas),
      (''valentine'', emoji_valentine),
      (''mother's day'', emoji_mothers),
      (''mothers day'', emoji_mothers),
      (''st. patrick'', emoji_st_patrick),
      (''st patrick'', emoji_st_patrick),
      (''halloween'', emoji_halloween),
      (''easter'', emoji_easter),
      (''father's day'', emoji_fathers),
      (''fathers day'', emoji_fathers),
      (''new year's eve'', emoji_new_years_eve),
      (''christmas eve'', emoji_christmas_eve),
      (''black friday'', emoji_black_friday),
      (''cyber monday'', emoji_cyber_monday),
      (''earth day'', emoji_earth_day),
      (''arbor day'', emoji_arbor_day),
      (''cinco de mayo'', emoji_cinco_de_mayo),
      (''april fool'', emoji_april_fool),
      (''groundhog'', emoji_groundhog),
      (''super bowl'', emoji_super_bowl),
      (''mardi gras'', emoji_mardi_gras),
      (''ash wednesday'', emoji_ash_wednesday),
      (''good friday'', emoji_good_friday),
      (''palm sunday'', emoji_palm_sunday),
      (''election day'', emoji_election_day),
      (''tax day'', emoji_tax_day),
      (''flag day'', emoji_flag_day),
      (''patriot day'', emoji_patriot_day),
      (''constitution day'', emoji_constitution_day),
      (''daylight saving'', emoji_daylight_saving),
      (''dst'', emoji_daylight_saving)]"

fun first_match :: "(string \<times> string) list \<Rightarrow> string \<Rightarrow> string" where
  "first_match [] t = emoji_calendar"
| "first_match ((s, e) # ps) t = (if str_includes t s then e else first_match ps t)"

definition matching_pairs :: "string \<Rightarrow> (string \<times> string) list" where
  "matching_pairs baseTitle =
     filter (\<lambda>(s, e). str_includes (toLowerCase baseTitle) s) emoji_pairs"

text \<open>The titles of the two candidate tables, in the order of the tables.\<close>

definition holiday_titles :: "string list" where
  "holiday_titles =
     [''New Year's Day'',
      ''Martin Luther King Jr. Day'',
      ''Washington's Birthday'',
      ''Memorial Day'',
      ''Juneteenth National Independence Day'',
      ''Independence Day'',
      ''Labor Day'',
      ''Columbus Day'',
      ''Veterans Day'',
      ''Thanksgiving Day'',
      ''Christmas Day'',
      ''Valentine's Day'',
      ''St. Patrick's Day'',
      ''Halloween'',
      ''Mother's Day'',
      ''Easter'']"

definition observance_titles :: "string list" where
  "observance_titles =
     [''New Year's Eve'',
      ''Christmas Eve'',
      ''Groundhog Day'',
      ''April Fools' Day'',
      ''Earth Day'',
      ''Arbor Day'',
      ''Cinco de Mayo'',
      ''Father's Day'',
      ''Flag Day'',
      ''Patriot Day'',
      ''Constitution Day'',
      ''Daylight Saving Time Begins'',
      ''Daylight Saving Time Ends'',
      ''Election Day'',
      ''Black Friday'',
      ''Cyber Monday'',
      ''Palm Sunday'',
      ''Good Friday'',
      ''Ash Wednesday'',
      ''Mardi Gras'',
      ''Super Bowl Sunday'',
      ''Tax Day'']"

definition table_titles :: "string list" where
  "table_titles = holiday_titles @ observance_titles"

section \<open>The specification's reading of the Easter rule\<close>



declare year_loop.simps [simp del]

declare digits_of.simps [simp del]

section \<open>Properties of the calendar arithmetic\<close>

lemma div_step:
  fixes x n :: int
  assumes "0 < n"
  shows "(x + 1) div n = x div n + (if (x + 1) mod n = 0 then 1 else 0)"
proof (cases "(x + 1) mod n = 0")
  case True
  then obtain k where k: "x + 1 = n * k" by (auto simp: mod_eq_0_iff_dvd)
  then have x: "x = n * (k - 1) + (n - 1)" by (simp add: algebra_simps)
  have "x div n = k - 1"
    by (rule int_div_pos_eq [OF x]) (use assms in auto)
  moreover have "(x + 1) div n = k" using k assms by simp
  ultimately show ?thesis using True by simp
next
  case False
  have r: "0 \<le> (x + 1) mod n" "(x + 1) mod n < n" using assms by simp_all
  with False have r1: "1 \<le> (x + 1) mod n" by linarith
  have "x = n * ((x + 1) div n) + ((x + 1) mod n - 1)"
    using mult_div_mod_eq [of n "x + 1"] by linarith
  then have "x div n = (x + 1) div n"
    by (rule int_div_pos_eq) (use r r1 in auto)
  then show ?thesis using False by simp
qed

lemma mod_shift: "(y - n * k) mod n = y mod (n::int)"
  using mod_mult_self2 [of y n "- k"] by simp

lemma DayFromYear_step: "DayFromYear (y + 1) = DayFromYear y + DaysInYear y"
proof -
  have a: "(y + 1 - 1969) div 4 = (y - 1969) div 4 + (if y mod 4 = 0 then 1 else 0)"
    using div_step [of 4 "y - 1969"] mod_shift [of y 4 492] by (simp add: algebra_simps)
  have b: "(y + 1 - 1901) div 100 = (y - 1901) div 100 + (if y mod 100 = 0 then 1 else 0)"
    using div_step [of 100 "y - 1901"] mod_shift [of y 100 19] by (simp add: algebra_simps)
  have c: "(y + 1 - 1601) div 400 = (y - 1601) div 400 + (if y mod 400 = 0 then 1 else 0)"
    using div_step [of 400 "y - 1601"] mod_shift [of y 400 4] by (simp add: algebra_simps)
  have d1: "y mod 400 = 0 \<Longrightarrow> y mod 100 = 0"
    using mod_mod_cancel [of 100 400 y] by simp
  have d2: "y mod 100 = 0 \<Longrightarrow> y mod 4 = 0"
    using mod_mod_cancel [of 4 100 y] by simp
  show ?thesis
    unfolding DayFromYear_def DaysInYear_def using d1 d2
    by (simp only: a b c) (auto split: if_splits)
qed

lemma DayFromYear_less_step: "DayFromYear y < DayFromYear (y + 1)"
  by (simp add: DayFromYear_step DaysInYear_def)

lemma DayFromYear_mono: "y \<le> y' \<Longrightarrow> DayFromYear y \<le> DayFromYear y'"
proof (induction y' rule: int_ge_induct)
  case base
  show ?case by simp
next
  case (step i)
  then show ?case using DayFromYear_less_step [of i] by linarith
qed

lemma DayFromYear_strict_mono: "y < y' \<Longrightarrow> DayFromYear y < DayFromYear y'"
  using DayFromYear_mono [of "y + 1" y'] DayFromYear_less_step [of y] by linarith








lemma Day_MakeDate [simp]: "Day (MakeDate d 0) = d"
  by (simp add: Day_def MakeDate_def msPerDay_def)









lemma MakeDay_normalise: "MakeDay y m dt = MakeDay (y + m div 12) (m mod 12) dt"
  by (simp add: MakeDay_def Let_def)

lemma MakeDay_add: "MakeDay y m (dt + k) = MakeDay y m dt + k"
  by (simp add: MakeDay_def Let_def)







section \<open>Properties of the rule evaluators\<close>





























section \<open>Properties of the Easter rule\<close>
























section \<open>Properties of the emoji lookup\<close>

lemma str_includes_sublist: "str_includes t s \<longleftrightarrow> sublist s t"
  by (induction t) (auto simp: sublist_Cons_right)

lemma if_disj: "(if A \<or> B then x else y) = (if A then x else if B then x else y)"
  by simp

lemma emojiForHolidayTitle_first_match:
  "emojiForHolidayTitle baseTitle = first_match emoji_pairs (toLowerCase baseTitle)"
  unfolding emojiForHolidayTitle_def emoji_pairs_def Let_def if_disj first_match.simps ..

lemma first_match_filter:
  "first_match ps t =
     (case filter (\<lambda>(s, e). str_includes t s) ps of [] \<Rightarrow> emoji_calendar | (s, e) # _ \<Rightarrow> e)"
  by (induction ps) auto

lemma candidate_titles:
  "map fst (holidayCandidates year) = holiday_titles"
  "map fst (observanceCandidates year) = observance_titles"
  by (simp_all add: holidayCandidates_def observanceCandidates_def Let_def
      holiday_titles_def observance_titles_def)

text \<open>The two character tests on the printable ASCII characters, for evaluation.\<close>

lemma lower_char_ascii:
  "lower_char (CHR 0x20) = CHR 0x20"
  "lower_char (CHR 0x21) = CHR 0x21"
  "lower_char (CHR 0x22) = CHR 0x22"
  "lower_char (CHR 0x23) = CHR 0x23"
  "lower_char (CHR 0x24) = CHR 0x24"
  "lower_char (CHR 0x25) = CHR 0x25"
  "lower_char (CHR 0x26) = CHR 0x26"
  "lower_char (CHR 0x27) = CHR 0x27"
  "lower_char (CHR 0x28) = CHR 0x28"
  "lower_char (CHR 0x29) = CHR 0x29"
  "lower_char (CHR 0x2A) = CHR 0x2A"
  "lower_char (CHR 0x2B) = CHR 0x2B"
  "lower_char (CHR 0x2C) = CHR 0x2C"
  "lower_char (CHR 0x2D) = CHR 0x2D"
  "lower_char (CHR 0x2E) = CHR 0x2E"
  "lower_char (CHR 0x2F) = CHR 0x2F"
  "lower_char (CHR ''0'') = CHR ''0''"
  "lower_char (CHR ''1'') = CHR ''1''"
  "lower_char (CHR ''2'') = CHR ''2''"
  "lower_char (CHR ''3'') = CHR ''3''"
  "lower_char (CHR ''4'') = CHR ''4''"
  "lower_char (CHR ''5'') = CHR ''5''"
  "lower_char (CHR ''6'') = CHR ''6''"
  "lower_char (CHR ''7'') = CHR ''7''"
  "lower_char (CHR ''8'') = CHR ''8''"
  "lower_char (CHR ''9'') = CHR ''9''"
  "lower_char (CHR 0x3A) = CHR 0x3A"
  "lower_char (CHR 0x3B) = CHR 0x3B"
  "lower_char (CHR 0x3C) = CHR 0x3C"
  "lower_char (CHR 0x3D) = CHR 0x3D"
  "lower_char (CHR 0x3E) = CHR 0x3E"
  "lower_char (CHR 0x3F) = CHR 0x3F"
  "lower_char (CHR 0x40) = CHR 0x40"
  "lower_char (CHR ''A'') = CHR ''a''"
  "lower_char (CHR ''B'') = CHR ''b''"
  "lower_char (CHR ''C'') = CHR ''c''"
  "lower_char (CHR ''D'') = CHR ''d''"
  "lower_char (CHR ''E'') = CHR ''e''"
  "lower_char (CHR ''F'') = CHR ''f''"
  "lower_char (CHR ''G'') = CHR ''g''"
  "lower_char (CHR ''H'') = CHR ''h''"
  "lower_char (CHR ''I'') = CHR ''i''"
  "lower_char (CHR ''J'') = CHR ''j''"
  "lower_char (CHR ''K'') = CHR ''k''"
  "lower_char (CHR ''L'') = CHR ''l''"
  "lower_char (CHR ''M'') = CHR ''m''"
  "lower_char (CHR ''N'') = CHR ''n''"
  "lower_char (CHR ''O'') = CHR ''o''"
  "lower_char (CHR ''P'') = CHR ''p''"
  "lower_char (CHR ''Q'') = CHR ''q''"
  "lower_char (CHR ''R'') = CHR ''r''"
  "lower_char (CHR ''S'') = CHR ''s''"
  "lower_char (CHR ''T'') = CHR ''t''"
  "lower_char (CHR ''U'') = CHR ''u''"
  "lower_char (CHR ''V'') = CHR ''v''"
  "lower_char (CHR ''W'') = CHR ''w''"
  "lower_char (CHR ''X'') = CHR ''x''"
  "lower_char (CHR ''Y'') = CHR ''y''"
  "lower_char (CHR ''Z'') = CHR ''z''"
  "lower_char (CHR 0x5B) = CHR 0x5B"
  "lower_char (CHR 0x5C) = CHR 0x5C"
  "lower_char (CHR 0x5D) = CHR 0x5D"
  "lower_char (CHR 0x5E) = CHR 0x5E"
  "lower_char (CHR 0x5F) = CHR 0x5F"
  "lower_char (CHR 0x60) = CHR 0x60"
  "lower_char (CHR ''a'') = CHR ''a''"
  "lower_char (CHR ''b'') = CHR ''b''"
  "lower_char (CHR ''c'') = CHR ''c''"
  "lower_char (CHR ''d'') = CHR ''d''"
  "lower_char (CHR ''e'') = CHR ''e''"
  "lower_char (CHR ''f'') = CHR ''f''"
  "lower_char (CHR ''g'') = CHR ''g''"
  "lower_char (CHR ''h'') = CHR ''h''"
  "lower_char (CHR ''i'') = CHR ''i''"
  "lower_char (CHR ''j'') = CHR ''j''"
  "lower_char (CHR ''k'') = CHR ''k''"
  "lower_char (CHR ''l'') = CHR ''l''"
  "lower_char (CHR ''m'') = CHR ''m''"
  "lower_char (CHR ''n'') = CHR ''n''"
  "lower_char (CHR ''o'') = CHR ''o''"
  "lower_char (CHR ''p'') = CHR ''p''"
  "lower_char (CHR ''q'') = CHR ''q''"
  "lower_char (CHR ''r'') = CHR ''r''"
  "lower_char (CHR ''s'') = CHR ''s''"
  "lower_char (CHR ''t'') = CHR ''t''"
  "lower_char (CHR ''u'') = CHR ''u''"
  "lower_char (CHR ''v'') = CHR ''v''"
  "lower_char (CHR ''w'') = CHR ''w''"
  "lower_char (CHR ''x'') = CHR ''x''"
  "lower_char (CHR ''y'') = CHR ''y''"
  "lower_char (CHR ''z'') = CHR ''z''"
  "lower_char (CHR 0x7B) = CHR 0x7B"
  "lower_char (CHR 0x7C) = CHR 0x7C"
  "lower_char (CHR 0x7D) = CHR 0x7D"
  "lower_char (CHR 0x7E) = CHR 0x7E"
  by code_simp+

lemma slug_char_ascii:
  "slug_char (CHR 0x20) = False"
  "slug_char (CHR 0x21) = False"
  "slug_char (CHR 0x22) = False"
  "slug_char (CHR 0x23) = False"
  "slug_char (CHR 0x24) = False"
  "slug_char (CHR 0x25) = False"
  "slug_char (CHR 0x26) = False"
  "slug_char (CHR 0x27) = False"
  "slug_char (CHR 0x28) = False"
  "slug_char (CHR 0x29) = False"
  "slug_char (CHR 0x2A) = False"
  "slug_char (CHR 0x2B) = False"
  "slug_char (CHR 0x2C) = False"
  "slug_char (CHR 0x2D) = False"
  "slug_char (CHR 0x2E) = False"
  "slug_char (CHR 0x2F) = False"
  "slug_char (CHR ''0'') = True"
  "slug_char (CHR ''1'') = True"
  "slug_char (CHR ''2'') = True"
  "slug_char (CHR ''3'') = True"
  "slug_char (CHR ''4'') = True"
  "slug_char (CHR ''5'') = True"
  "slug_char (CHR ''6'') = True"
  "slug_char (CHR ''7'') = True"
  "slug_char (CHR ''8'') = True"
  "slug_char (CHR ''9'') = True"
  "slug_char (CHR 0x3A) = False"
  "slug_char (CHR 0x3B) = False"
  "slug_char (CHR 0x3C) = False"
  "slug_char (CHR 0x3D) = False"
  "slug_char (CHR 0x3E) = False"
  "slug_char (CHR 0x3F) = False"
  "slug_char (CHR 0x40) = False"
  "slug_char (CHR ''A'') = False"
  "slug_char (CHR ''B'') = False"
  "slug_char (CHR ''C'') = False"
  "slug_char (CHR ''D'') = False"
  "slug_char (CHR ''E'') = False"
  "slug_char (CHR ''F'') = False"
  "slug_char (CHR ''G'') = False"
  "slug_char (CHR ''H'') = False"
  "slug_char (CHR ''I'') = False"
  "slug_char (CHR ''J'') = False"
  "slug_char (CHR ''K'') = False"
  "slug_char (CHR ''L'') = False"
  "slug_char (CHR ''M'') = False"
  "slug_char (CHR ''N'') = False"
  "slug_char (CHR ''O'') = False"
  "slug_char (CHR ''P'') = False"
  "slug_char (CHR ''Q'') = False"
  "slug_char (CHR ''R'') = False"
  "slug_char (CHR ''S'') = False"
  "slug_char (CHR ''T'') = False"
  "slug_char (CHR ''U'') = False"
  "slug_char (CHR ''V'') = False"
  "slug_char (CHR ''W'') = False"
  "slug_char (CHR ''X'') = False"
  "slug_char (CHR ''Y'') = False"
  "slug_char (CHR ''Z'') = False"
  "slug_char (CHR 0x5B) = False"
  "slug_char (CHR 0x5C) = False"
  "slug_char (CHR 0x5D) = False"
  "slug_char (CHR 0x5E) = False"
  "slug_char (CHR 0x5F) = False"
  "slug_char (CHR 0x60) = False"
  "slug_char (CHR ''a'') = True"
  "slug_char (CHR ''b'') = True"
  "slug_char (CHR ''c'') = True"
  "slug_char (CHR ''d'') = True"
  "slug_char (CHR ''e'') = True"
  "slug_char (CHR ''f'') = True"
  "slug_char (CHR ''g'') = True"
  "slug_char (CHR ''h'') = True"
  "slug_char (CHR ''i'') = True"
  "slug_char (CHR ''j'') = True"
  "slug_char (CHR ''k'') = True"
  "slug_char (CHR ''l'') = True"
  "slug_char (CHR ''m'') = True"
  "slug_char (CHR ''n'') = True"
  "slug_char (CHR ''o'') = True"
  "slug_char (CHR ''p'') = True"
  "slug_char (CHR ''q'') = True"
  "slug_char (CHR ''r'') = True"
  "slug_char (CHR ''s'') = True"
  "slug_char (CHR ''t'') = True"
  "slug_char (CHR ''u'') = True"
  "slug_char (CHR ''v'') = True"
  "slug_char (CHR ''w'') = True"
  "slug_char (CHR ''x'') = True"
  "slug_char (CHR ''y'') = True"
  "slug_char (CHR ''z'') = True"
  "slug_char (CHR 0x7B) = False"
  "slug_char (CHR 0x7C) = False"
  "slug_char (CHR 0x7D) = False"
  "slug_char (CHR 0x7E) = False"
  by code_simp+

lemma lower_titles:
  "map toLowerCase table_titles =
     [''new year's day'',
      ''martin luther king jr. day'',
      ''washington's birthday'',
      ''memorial day'',
      ''juneteenth national independence day'',
      ''independence day'',
      ''labor day'',
      ''columbus day'',
      ''veterans day'',
      ''thanksgiving day'',
      ''christmas day'',
      ''valentine's day'',
      ''st. patrick's day'',
      ''halloween'',
      ''mother's day'',
      ''easter'',
      ''new year's eve'',
      ''christmas eve'',
      ''groundhog day'',
      ''april fools' day'',
      ''earth day'',
      ''arbor day'',
      ''cinco de mayo'',
      ''father's day'',
      ''flag day'',
      ''patriot day'',
      ''constitution day'',
      ''daylight saving time begins'',
      ''daylight saving time ends'',
      ''election day'',
      ''black friday'',
      ''cyber monday'',
      ''palm sunday'',
      ''good friday'',
      ''ash wednesday'',
      ''mardi gras'',
      ''super bowl sunday'',
      ''tax day'']"
  by (simp add: table_titles_def holiday_titles_def observance_titles_def toLowerCase_def lower_char_ascii)

text \<open>How many pairs of the table match each lower-cased title.\<close>

lemma matching_counts_1:
  "length (filter (\<lambda>(s, e). str_includes ''new year's day'' s) emoji_pairs) = 1"
  "length (filter (\<lambda>(s, e). str_includes ''juneteenth national independence day'' s) emoji_pairs) = 2"
  "length (filter (\<lambda>(s, e). str_includes ''veterans day'' s) emoji_pairs) = 1"
  "length (filter (\<lambda>(s, e). str_includes ''st. patrick's day'' s) emoji_pairs) = 1"
  "length (filter (\<lambda>(s, e). str_includes ''new year's eve'' s) emoji_pairs) = 2"
  "length (filter (\<lambda>(s, e). str_includes ''earth day'' s) emoji_pairs) = 1"
  "length (filter (\<lambda>(s, e). str_includes ''flag day'' s) emoji_pairs) = 1"
  "length (filter (\<lambda>(s, e). str_includes ''daylight saving time ends'' s) emoji_pairs) = 1"
  "length (filter (\<lambda>(s, e). str_includes ''palm sunday'' s) emoji_pairs) = 1"
  "length (filter (\<lambda>(s, e). str_includes ''super bowl sunday'' s) emoji_pairs) = 1"
  by code_simp+

lemma matching_counts_2:
  "length (filter (\<lambda>(s, e). str_includes ''martin luther king jr. day'' s) emoji_pairs) = 1"
  "length (filter (\<lambda>(s, e). str_includes ''independence day'' s) emoji_pairs) = 1"
  "length (filter (\<lambda>(s, e). str_includes ''thanksgiving day'' s) emoji_pairs) = 1"
  "length (filter (\<lambda>(s, e). str_includes ''halloween'' s) emoji_pairs) = 1"
  "length (filter (\<lambda>(s, e). str_includes ''christmas eve'' s) emoji_pairs) = 2"
  "length (filter (\<lambda>(s, e). str_includes ''arbor day'' s) emoji_pairs) = 1"
  "length (filter (\<lambda>(s, e). str_includes ''patriot day'' s) emoji_pairs) = 1"
  "length (filter (\<lambda>(s, e). str_includes ''election day'' s) emoji_pairs) = 1"
  "length (filter (\<lambda>(s, e). str_includes ''good friday'' s) emoji_pairs) = 1"
  "length (filter (\<lambda>(s, e). str_includes ''tax day'' s) emoji_pairs) = 1"
  by code_simp+

lemma matching_counts_3:
  "length (filter (\<lambda>(s, e). str_includes ''washington's birthday'' s) emoji_pairs) = 1"
  "length (filter (\<lambda>(s, e). str_includes ''labor day'' s) emoji_pairs) = 1"
  "length (filter (\<lambda>(s, e). str_includes ''christmas day'' s) emoji_pairs) = 1"
  "length (filter (\<lambda>(s, e). str_includes ''mother's day'' s) emoji_pairs) = 1"
  "length (filter (\<lambda>(s, e). str_includes ''groundhog day'' s) emoji_pairs) = 1"
  "length (filter (\<lambda>(s, e). str_includes ''cinco de mayo'' s) emoji_pairs) = 1"
  "length (filter (\<lambda>(s, e). str_includes ''constitution day'' s) emoji_pairs) = 1"
  "length (filter (\<lambda>(s, e). str_includes ''black friday'' s) emoji_pairs) = 1"
  "length (filter (\<lambda>(s, e). str_includes ''ash wednesday'' s) emoji_pairs) = 1"
  by code_simp+

lemma matching_counts_4:
  "length (filter (\<lambda>(s, e). str_includes ''memorial day'' s) emoji_pairs) = 1"
  "length (filter (\<lambda>(s, e). str_includes ''columbus day'' s) emoji_pairs) = 1"
  "length (filter (\<lambda>(s, e). str_includes ''valentine's day'' s) emoji_pairs) = 1"
  "length (filter (\<lambda>(s, e). str_includes ''easter'' s) emoji_pairs) = 1"
  "length (filter (\<lambda>(s, e). str_includes ''april fools' day'' s) emoji_pairs) = 1"
  "length (filter (\<lambda>(s, e). str_includes ''father's day'' s) emoji_pairs) = 1"
  "length (filter (\<lambda>(s, e). str_includes ''daylight saving time begins'' s) emoji_pairs) = 1"
  "length (filter (\<lambda>(s, e). str_includes ''cyber monday'' s) emoji_pairs) = 1"
  "length (filter (\<lambda>(s, e). str_includes ''mardi gras'' s) emoji_pairs) = 1"
  by code_simp+

lemma matching_pairs_lower:
  "toLowerCase t = l \<Longrightarrow> matching_pairs t = filter (\<lambda>(s, e). str_includes l s) emoji_pairs"
  by (simp add: matching_pairs_def)

lemmas matching_counts = matching_counts_1 matching_counts_2 matching_counts_3 matching_counts_4

lemma lower_title_each:
  "toLowerCase ''New Year's Day'' = ''new year's day''"
  "toLowerCase ''Martin Luther King Jr. Day'' = ''martin luther king jr. day''"
  "toLowerCase ''Washington's Birthday'' = ''washington's birthday''"
  "toLowerCase ''Memorial Day'' = ''memorial day''"
  "toLowerCase ''Juneteenth National Independence Day'' = ''juneteenth national independence day''"
  "toLowerCase ''Independence Day'' = ''independence day''"
  "toLowerCase ''Labor Day'' = ''labor day''"
  "toLowerCase ''Columbus Day'' = ''columbus day''"
  "toLowerCase ''Veterans Day'' = ''veterans day''"
  "toLowerCase ''Thanksgiving Day'' = ''thanksgiving day''"
  "toLowerCase ''Christmas Day'' = ''christmas day''"
  "toLowerCase ''Valentine's Day'' = ''valentine's day''"
  "toLowerCase ''St. Patrick's Day'' = ''st. patrick's day''"
  "toLowerCase ''Halloween'' = ''halloween''"
  "toLowerCase ''Mother's Day'' = ''mother's day''"
  "toLowerCase ''Easter'' = ''easter''"
  "toLowerCase ''New Year's Eve'' = ''new year's eve''"
  "toLowerCase ''Christmas Eve'' = ''christmas eve''"
  "toLowerCase ''Groundhog Day'' = ''groundhog day''"
  "toLowerCase ''April Fools' Day'' = ''april fools' day''"
  "toLowerCase ''Earth Day'' = ''earth day''"
  "toLowerCase ''Arbor Day'' = ''arbor day''"
  "toLowerCase ''Cinco de Mayo'' = ''cinco de mayo''"
  "toLowerCase ''Father's Day'' = ''father's day''"
  "toLowerCase ''Flag Day'' = ''flag day''"
  "toLowerCase ''Patriot Day'' = ''patriot day''"
  "toLowerCase ''Constitution Day'' = ''constitution day''"
  "toLowerCase ''Daylight Saving Time Begins'' = ''daylight saving time begins''"
  "toLowerCase ''Daylight Saving Time Ends'' = ''daylight saving time ends''"
  "toLowerCase ''Election Day'' = ''election day''"
  "toLowerCase ''Black Friday'' = ''black friday''"
  "toLowerCase ''Cyber Monday'' = ''cyber monday''"
  "toLowerCase ''Palm Sunday'' = ''palm sunday''"
  "toLowerCase ''Good Friday'' = ''good friday''"
  "toLowerCase ''Ash Wednesday'' = ''ash wednesday''"
  "toLowerCase ''Mardi Gras'' = ''mardi gras''"
  "toLowerCase ''Super Bowl Sunday'' = ''super bowl sunday''"
  "toLowerCase ''Tax Day'' = ''tax day''"
  by (simp_all add: toLowerCase_def lower_char_ascii)

lemma matching_each:
  "length (matching_pairs ''New Year's Day'') = 1"
  "length (matching_pairs ''Martin Luther King Jr. Day'') = 1"
  "length (matching_pairs ''Washington's Birthday'') = 1"
  "length (matching_pairs ''Memorial Day'') = 1"
  "length (matching_pairs ''Juneteenth National Independence Day'') = 2"
  "length (matching_pairs ''Independence Day'') = 1"
  "length (matching_pairs ''Labor Day'') = 1"
  "length (matching_pairs ''Columbus Day'') = 1"
  "length (matching_pairs ''Veterans Day'') = 1"
  "length (matching_pairs ''Thanksgiving Day'') = 1"
  "length (matching_pairs ''Christmas Day'') = 1"
  "length (matching_pairs ''Valentine's Day'') = 1"
  "length (matching_pairs ''St. Patrick's Day'') = 1"
  "length (matching_pairs ''Halloween'') = 1"
  "length (matching_pairs ''Mother's Day'') = 1"
  "length (matching_pairs ''Easter'') = 1"
  "length (matching_pairs ''New Year's Eve'') = 2"
  "length (matching_pairs ''Christmas Eve'') = 2"
  "length (matching_pairs ''Groundhog Day'') = 1"
  "length (matching_pairs ''April Fools' Day'') = 1"
  "length (matching_pairs ''Earth Day'') = 1"
  "length (matching_pairs ''Arbor Day'') = 1"
  "length (matching_pairs ''Cinco de Mayo'') = 1"
  "length (matching_pairs ''Father's Day'') = 1"
  "length (matching_pairs ''Flag Day'') = 1"
  "length (matching_pairs ''Patriot Day'') = 1"
  "length (matching_pairs ''Constitution Day'') = 1"
  "length (matching_pairs ''Daylight Saving Time Begins'') = 1"
  "length (matching_pairs ''Daylight Saving Time Ends'') = 1"
  "length (matching_pairs ''Election Day'') = 1"
  "length (matching_pairs ''Black Friday'') = 1"
  "length (matching_pairs ''Cyber Monday'') = 1"
  "length (matching_pairs ''Palm Sunday'') = 1"
  "length (matching_pairs ''Good Friday'') = 1"
  "length (matching_pairs ''Ash Wednesday'') = 1"
  "length (matching_pairs ''Mardi Gras'') = 1"
  "length (matching_pairs ''Super Bowl Sunday'') = 1"
  "length (matching_pairs ''Tax Day'') = 1"
  by (simp_all only: matching_counts
      matching_pairs_lower [OF lower_title_each(1)]
      matching_pairs_lower [OF lower_title_each(2)]
      matching_pairs_lower [OF lower_title_each(3)]
      matching_pairs_lower [OF lower_title_each(4)]
      matching_pairs_lower [OF lower_title_each(5)]
      matching_pairs_lower [OF lower_title_each(6)]
      matching_pairs_lower [OF lower_title_each(7)]
      matching_pairs_lower [OF lower_title_each(8)]
      matching_pairs_lower [OF lower_title_each(9)]
      matching_pairs_lower [OF lower_title_each(10)]
      matching_pairs_lower [OF lower_title_each(11)]
      matching_pairs_lower [OF lower_title_each(12)]
      matching_pairs_lower [OF lower_title_each(13)]
      matching_pairs_lower [OF lower_title_each(14)]
      matching_pairs_lower [OF lower_title_each(15)]
      matching_pairs_lower [OF lower_title_each(16)]
      matching_pairs_lower [OF lower_title_each(17)]
      matching_pairs_lower [OF lower_title_each(18)]
      matching_pairs_lower [OF lower_title_each(19)]
      matching_pairs_lower [OF lower_title_each(20)]
      matching_pairs_lower [OF lower_title_each(21)]
      matching_pairs_lower [OF lower_title_each(22)]
      matching_pairs_lower [OF lower_title_each(23)]
      matching_pairs_lower [OF lower_title_each(24)]
      matching_pairs_lower [OF lower_title_each(25)]
      matching_pairs_lower [OF lower_title_each(26)]
      matching_pairs_lower [OF lower_title_each(27)]
      matching_pairs_lower [OF lower_title_each(28)]
      matching_pairs_lower [OF lower_title_each(29)]
      matching_pairs_lower [OF lower_title_each(30)]
      matching_pairs_lower [OF lower_title_each(31)]
      matching_pairs_lower [OF lower_title_each(32)]
      matching_pairs_lower [OF lower_title_each(33)]
      matching_pairs_lower [OF lower_title_each(34)]
      matching_pairs_lower [OF lower_title_each(35)]
      matching_pairs_lower [OF lower_title_each(36)]
      matching_pairs_lower [OF lower_title_each(37)]
      matching_pairs_lower [OF lower_title_each(38)])

lemma table_titles_single_match:
  "\<forall>t \<in> set table_titles.
      t \<noteq> ''Juneteenth National Independence Day'' \<and> t \<noteq> ''New Year's Eve''
      \<and> t \<noteq> ''Christmas Eve'' \<longrightarrow> length (matching_pairs t) = 1"
  unfolding table_titles_def holiday_titles_def observance_titles_def
  by (simp add: matching_each)

lemma juneteenth_matches:
  "matching_pairs ''Juneteenth National Independence Day'' =
     [(''juneteenth'', emoji_juneteenth), (''independence day'', emoji_independence)]"
  unfolding matching_pairs_lower [OF lower_title_each(5)] by code_simp

lemma emojiForHolidayTitle_matching:
  "emojiForHolidayTitle t =
     (case matching_pairs t of [] \<Rightarrow> emoji_calendar | (s, e) # _ \<Rightarrow> e)"
  by (simp add: emojiForHolidayTitle_first_match first_match_filter matching_pairs_def)

section \<open>The loops in closed form\<close>

lemma push_candidates_kept:
  "push_candidates s e c cands events = events @ kept s e c cands"
  by (induction cands arbitrary: events)
     (auto simp: kept_def in_range_def Let_def)

lemma year_body:
  "push_candidates s e Observance (observanceCandidates year)
     (push_candidates s e Holiday (holidayCandidates year) events)
   = events @ year_events s e year"
  by (simp add: push_candidates_kept year_events_def)

lemma year_loop_empty: "endYear < year \<Longrightarrow> year_loop year startYear endYear events = events"
  by (subst year_loop.simps) simp

lemma year_loop_concat:
  "year_loop year s e events = events @ concat (map (year_events s e) [year..e])"
proof (induction year s e events rule: year_loop.induct)
  case (1 year s e events)
  show ?case
  proof (cases "year \<le> e")
    case True
    then have "[year..e] = year # [year + 1..e]" by (simp add: upto_rec1)
    with True 1 show ?thesis
      by (subst year_loop.simps) (simp add: year_body)
  next
    case False
    then show ?thesis by (subst year_loop.simps) simp
  qed
qed

lemma makeUsFederalHolidays_explicit:
  "makeUsFederalHolidays env (explicit_range now s e) = dedupe {} (year_loop s s e [])"
  by (simp add: makeUsFederalHolidays_def explicit_range_def Let_def)

section \<open>Claims about the rule evaluators\<close>




section \<open>Claims about Easter\<close>




section \<open>Claims about the emoji decoration\<close>

text \<open>
  C5 (as amended). The emoji of a title is found by searching the fixed ordered list of
  (substring, emoji) pairs against the lower-cased title: \<open>str_includes\<close> is the
  substring test, the first pair that matches in declared order gives the emoji, a title
  that matches no pair gets the generic calendar emoji, and titles that differ in case
  only get the same emoji. Of the titles of the holiday and observance tables, each one
  other than "Juneteenth National Independence Day", "New Year's Eve" and "Christmas Eve"
  matches exactly one pair. "Juneteenth National Independence Day" matches two pairs,
  \<^verbatim>\<open>juneteenth\<close> and the later \<^verbatim>\<open>independence day\<close>, and gets the emoji of the first.
  Nothing is stated here about "New Year's Eve" and "Christmas Eve".
\<close>

theorem emoji_lookup:
  "(\<forall>t. emojiForHolidayTitle t = first_match emoji_pairs (toLowerCase t))
   \<and> (\<forall>t s. str_includes t s \<longleftrightarrow> sublist s t)
   \<and> (\<forall>t. emojiForHolidayTitle t =
          (case matching_pairs t of [] \<Rightarrow> emoji_calendar | (s, e) # _ \<Rightarrow> e))
   \<and> (\<forall>t t'. toLowerCase t = toLowerCase t' \<longrightarrow>
          emojiForHolidayTitle t = emojiForHolidayTitle t')
   \<and> (\<forall>t \<in> set table_titles.
          t \<noteq> ''Juneteenth National Independence Day'' \<and> t \<noteq> ''New Year's Eve''
          \<and> t \<noteq> ''Christmas Eve'' \<longrightarrow> length (matching_pairs t) = 1)
   \<and> matching_pairs ''Juneteenth National Independence Day'' =
         [(''juneteenth'', emoji_juneteenth), (''independence day'', emoji_independence)]
   \<and> emojiForHolidayTitle ''Juneteenth National Independence Day'' = emoji_juneteenth"
proof (intro conjI allI impI)
  fix t t' :: string
  assume "toLowerCase t = toLowerCase t'"
  then show "emojiForHolidayTitle t = emojiForHolidayTitle t'"
    by (simp add: emojiForHolidayTitle_first_match)
next
  show "emojiForHolidayTitle ''Juneteenth National Independence Day'' = emoji_juneteenth"
    by (simp add: emojiForHolidayTitle_matching juneteenth_matches)
qed (simp_all add: emojiForHolidayTitle_first_match str_includes_sublist
      emojiForHolidayTitle_matching [symmetric] table_titles_single_match juneteenth_matches)

theorem emoji_lookup_witness:
  "''Easter'' \<in> set table_titles
   \<and> ''Easter'' \<noteq> ''Juneteenth National Independence Day'' \<and> ''Easter'' \<noteq> ''New Year's Eve''
   \<and> ''Easter'' \<noteq> ''Christmas Eve''
   \<and> length (matching_pairs ''Easter'') = 1
   \<and> toLowerCase ''EASTER'' = toLowerCase ''Easter''
   \<and> emojiForHolidayTitle ''EASTER'' = emojiForHolidayTitle ''Easter''"
proof -
  have m: "''Easter'' \<in> set table_titles"
    by (simp add: table_titles_def holiday_titles_def)
  have n: "''Easter'' \<noteq> ''Juneteenth National Independence Day'' \<and> ''Easter'' \<noteq> ''New Year's Eve''
      \<and> ''Easter'' \<noteq> ''Christmas Eve''" by simp
  have l: "toLowerCase ''EASTER'' = toLowerCase ''Easter''"
    by (simp add: toLowerCase_def lower_char_ascii)
  note c4 = emoji_lookup [THEN conjunct2, THEN conjunct2, THEN conjunct2, THEN conjunct1]
  note c5 = emoji_lookup [THEN conjunct2, THEN conjunct2, THEN conjunct2, THEN conjunct2,
      THEN conjunct1]
  have a: "length (matching_pairs ''Easter'') = 1"
    using c5 [rule_format, OF m n] .
  have b: "emojiForHolidayTitle ''EASTER'' = emojiForHolidayTitle ''Easter''"
    using c4 [rule_format, OF l] .
  show ?thesis by (intro conjI m n [THEN conjunct1] n [THEN conjunct2, THEN conjunct1]
      n [THEN conjunct2, THEN conjunct2] a l b)
qed

text \<open>
  The claim as stated, that no two pairs match the same title of the table: two pairs
  match "Juneteenth National Independence Day".
\<close>

theorem emoji_lookup_counterexample:
  "''Juneteenth National Independence Day'' \<in> set table_titles
   \<and> (''juneteenth'', emoji_juneteenth) \<in> set emoji_pairs
   \<and> (''independence day'', emoji_independence) \<in> set emoji_pairs
   \<and> str_includes (toLowerCase ''Juneteenth National Independence Day'') ''juneteenth''
   \<and> str_includes (toLowerCase ''Juneteenth National Independence Day'') ''independence day''
   \<and> length (matching_pairs ''Juneteenth National Independence Day'') = 2"
proof -
  have "set (matching_pairs ''Juneteenth National Independence Day'')
      = {(''juneteenth'', emoji_juneteenth), (''independence day'', emoji_independence)}"
    by (simp add: juneteenth_matches)
  then have "(''juneteenth'', emoji_juneteenth) \<in> set (matching_pairs ''Juneteenth National Independence Day'')"
    and "(''independence day'', emoji_independence) \<in> set (matching_pairs ''Juneteenth National Independence Day'')"
    by simp_all
  then have p: "(''juneteenth'', emoji_juneteenth) \<in> set emoji_pairs
      \<and> str_includes (toLowerCase ''Juneteenth National Independence Day'') ''juneteenth''"
    "(''independence day'', emoji_independence) \<in> set emoji_pairs
      \<and> str_includes (toLowerCase ''Juneteenth National Independence Day'') ''independence day''"
    by (simp_all add: matching_pairs_def)
  have t: "''Juneteenth National Independence Day'' \<in> set table_titles"
    by (simp add: table_titles_def holiday_titles_def)
  from p t matching_each(5) show ?thesis by blast
qed

section \<open>Claims about the year range\<close>

text \<open>
  C9. For every \<open>startYear\<close> and \<open>endYear\<close> with \<open>endYear < startYear\<close> the generator
  returns the empty list: the year loop performs no iteration. The model has no exception,
  and the function is total, so nothing is thrown.
\<close>

theorem empty_range:
  "endYear < startYear \<Longrightarrow> makeUsFederalHolidays env (explicit_range now startYear endYear) = []"
  by (simp add: makeUsFederalHolidays_explicit year_loop_empty)

theorem empty_range_witness:
  "(2024 :: int) < 2025 \<and>
   makeUsFederalHolidays \<lparr> clock = 0, LocalTZA = (\<lambda>t. 0) \<rparr> (explicit_range None 2025 2024) = []"
  using empty_range [of 2024 2025 "\<lparr> clock = 0, LocalTZA = (\<lambda>t. 0) \<rparr>" None] by simp

text \<open>
  C8. The generator is deterministic: with both year bounds given, the list of events (ids,
  titles, dates, categories and their order) depends on the two bounds only, not on the
  clock, the local time zone or the \<open>now\<close> argument.
\<close>

theorem deterministic:
  "makeUsFederalHolidays env (explicit_range now startYear endYear)
   = makeUsFederalHolidays env' (explicit_range now' startYear endYear)"
  by (simp add: makeUsFederalHolidays_explicit)

end
